theory Spec2Isabelle
  imports Main "HOL-Library.Word"
begin

section \<open>Go values, strings and formatting\<close>

text \<open>
  A Go \<^verbatim>\<open>string\<close> is a sequence of bytes, and so is an Isabelle \<^typ>\<open>string\<close>;
  \<^verbatim>\<open>len\<close> is \<^const>\<open>length\<close>. A value of type \<^verbatim>\<open>interface{}\<close> holds
  either a string or a value of some other dynamic type; the other types are kept
  abstract in the type parameter.
\<close>

datatype 'a go_value = VString string | VOther 'a

text \<open>
  The two forms of the type assertion \<^verbatim>\<open>v.(string)\<close>. The comma-ok form yields the
  zero value and \<^verbatim>\<open>false\<close> on another dynamic type; the single-value form panics.
\<close>

datatype panic = TypeAssertionPanic

fun assert_string_ok :: "'a go_value \<Rightarrow> string \<times> bool" where
  "assert_string_ok (VString s) = (s, True)"
| "assert_string_ok (VOther x) = ('''', False)"

fun assert_string :: "'a go_value \<Rightarrow> panic + string" where
  "assert_string (VString s) = Inr s"
| "assert_string (VOther x) = Inl TypeAssertionPanic"

text \<open>The verb \<^verbatim>\<open>%d\<close> of package fmt on a non-negative int: decimal digits.\<close>

definition digit_char :: "nat \<Rightarrow> char" where
  "digit_char d = ''0123456789'' ! d"

fun format_d :: "nat \<Rightarrow> string" where
  "format_d n = (if n < 10 then [digit_char n] else format_d (n div 10) @ [digit_char (n mod 10)])"

declare format_d.simps [simp del]

section \<open>The regular expressions of the validators\<close>

text \<open>
  The fragment of Go's regexp syntax that the source uses: character classes given by
  ranges, one-or-more repetition, concatenation and the anchors \<^verbatim>\<open>^\<close> and \<^verbatim>\<open>$\<close>
  (without the multi-line flag: begin and end of the text). All classes of the source
  hold ASCII characters only, where matching runes and matching bytes agree: a byte
  below 0x80 never occurs inside a multi-byte UTF-8 sequence.
\<close>

datatype regex =
    CharClass "(char \<times> char) list"
  | Plus regex
  | Concat regex regex
  | BeginText
  | EndText

definition in_class :: "(char \<times> char) list \<Rightarrow> char \<Rightarrow> bool" where
  "in_class rs c =
     list_ex (\<lambda>(lo, hi). (of_char lo :: nat) \<le> of_char c \<and> (of_char c :: nat) \<le> of_char hi) rs"

text \<open>\<open>rmatch re s i j\<close>: the expression matches the bytes of \<open>s\<close> from position
  \<open>i\<close> up to (not including) position \<open>j\<close>.\<close>

function rmatch :: "regex \<Rightarrow> string \<Rightarrow> nat \<Rightarrow> nat \<Rightarrow> bool" where
  "rmatch (CharClass rs) s i j = (j = Suc i \<and> i < length s \<and> in_class rs (s ! i))"
| "rmatch BeginText s i j = (i = j \<and> i = 0)"
| "rmatch EndText s i j = (i = j \<and> i = length s)"
| "rmatch (Concat a b) s i j = (\<exists>k\<in>{i..j}. rmatch a s i k \<and> rmatch b s k j)"
| "rmatch (Plus a) s i j =
     (rmatch a s i j \<or> (\<exists>k\<in>{i<..<j}. rmatch a s i k \<and> rmatch (Plus a) s k j))"
  by pat_completeness auto
termination
  by (relation "measures [\<lambda>(re, s, i, j). size re, \<lambda>(re, s, i, j). j - i]") auto

declare rmatch.simps(5) [simp del]

text \<open>\<^verbatim>\<open>(*Regexp).Match\<close>: is there a match anywhere in the text.\<close>

definition Match :: "regex \<Rightarrow> string \<Rightarrow> bool" where
  "Match re s = (\<exists>i\<in>{0..length s}. \<exists>j\<in>{i..length s}. rmatch re s i j)"

text \<open>The Perl class \<^verbatim>\<open>\s\<close> is \<^verbatim>\<open>[\t\n\f\r ]\<close>.\<close>

definition perl_space :: "(char \<times> char) list" where
  "perl_space = [(CHR 0x09, CHR 0x09), (CHR 0x0A, CHR 0x0A), (CHR 0x0C, CHR 0x0C),
                 (CHR 0x0D, CHR 0x0D), (CHR '' '', CHR '' '')]"

text \<open>The same characters as a set: tab, line feed, form feed, carriage return
  and space.\<close>

definition space_chars :: "char set" where
  "space_chars = {CHR 0x09, CHR 0x0A, CHR 0x0C, CHR 0x0D, CHR '' ''}"

text \<open>The white space characters of ASCII, as \<^verbatim>\<open>unicode.IsSpace\<close> and C's
  \<^verbatim>\<open>isspace\<close> have them: those five and the vertical tab, which \<^verbatim>\<open>\s\<close>
  leaves out.\<close>

definition ascii_space_chars :: "char set" where
  "ascii_space_chars = {CHR 0x09, CHR 0x0A, CHR 0x0B, CHR 0x0C, CHR 0x0D, CHR '' ''}"

text \<open>\<^verbatim>\<open>regexp.MustCompile(`\s+`)\<close>\<close>

definition whiteSpace :: regex where
  "whiteSpace = Plus (CharClass perl_space)"

text \<open>The class \<^verbatim>\<open>[a-zA-Z0-9-_.]\<close>: three ranges, then the single characters
  hyphen, underscore and dot (a hyphen after a complete range is a literal).\<close>

definition name_chars :: "(char \<times> char) list" where
  "name_chars = [(CHR ''a'', CHR ''z''), (CHR ''A'', CHR ''Z''), (CHR ''0'', CHR ''9''),
                 (CHR ''-'', CHR ''-''), (CHR ''_'', CHR ''_''), (CHR ''.'', CHR ''.'')]"

text \<open>\<^verbatim>\<open>regexp.MustCompile(`^[a-zA-Z0-9-_.]+$`)\<close>\<close>

definition alphanumeric :: regex where
  "alphanumeric = Concat BeginText (Concat (Plus (CharClass name_chars)) EndText)"

section \<open>The validators\<close>

text \<open>A validator of the schema returns the warnings and the errors; an error is
  its message.\<close>

definition ValidateName :: "'a go_value \<Rightarrow> string list \<times> string list" where
  "ValidateName v =
     (let errs = []; warns = [];
          (value, ok) = assert_string_ok v
      in if \<not> ok then (warns, errs @ [''expected name to be string''])
         else if Match whiteSpace value
              then (warns, errs @ [''name cannot contain whitespace. Got '' @ value])
              else (warns, errs))"

definition ValidateCNIName :: "'a go_value \<Rightarrow> string list \<times> string list" where
  "ValidateCNIName v =
     (let errs = []; warns = [];
          (value, ok) = assert_string_ok v
      in if \<not> ok then (warns, errs @ [''expected CNI to be string''])
         else if Match whiteSpace value
              then (warns, errs @ [''CNI cannot contain whitespace. Got '' @ value])
              else if value \<noteq> ''flannel'' \<and> value \<noteq> ''cilium''
                   then (warns, errs @ [''CNI plugin provided isn't valid/supported''])
                   else (warns, errs))"

definition ValidateNameSize :: "'a go_value \<Rightarrow> string list \<times> string list" where
  "ValidateNameSize v =
     (let errs = []; warns = [];
          (value, ok) = assert_string_ok v
      in if \<not> ok then (warns, errs @ [''expected name to be string''])
         else if Match whiteSpace value
              then (warns, errs @ [''name cannot contain whitespace. Got '' @ value])
              else if length value > 63
                   then (warns, errs @ [''the len of the name has to be less than 63. Got ''
                                          @ format_d (length value)])
                   else (warns, errs))"

datatype severity = Error | Warning

record diagnostic =
  Severity :: severity
  Summary :: string
  Detail :: string

text \<open>
  The first statement is the single-value type assertion, which panics on a value
  that is not a string; the comma-ok assertion after it is reached by strings only.
  Its check does not return, so the remaining checks follow it.
\<close>

definition ValidateNameOnlyContainsAlphanumericCharacters ::
    "'a go_value \<Rightarrow> panic + diagnostic list" where
  "ValidateNameOnlyContainsAlphanumericCharacters v =
     (case assert_string v of
        Inl p \<Rightarrow> Inl p
      | Inr value \<Rightarrow>
          (let diags = [];
               (_, ok) = assert_string_ok v;
               diags = (if \<not> ok
                        then diags @ [\<lparr>Severity = Error, Summary = ''wrong value'',
                                       Detail = ''expected name to be string''\<rparr>]
                        else diags);
               diags = (if Match whiteSpace value
                        then diags @ [\<lparr>Severity = Error, Summary = ''cannot contain whitespace'',
                                       Detail = ''name cannot contain whitespace. Got '' @ value\<rparr>]
                        else diags);
               diags = (if \<not> Match alphanumeric value
                        then diags @ [\<lparr>Severity = Error, Summary = ''alphanumeric characters'',
                                       Detail = ''name can only contain alphanumeric characters, hyphens, underscores and dots. Got '' @ value\<rparr>]
                        else diags)
           in Inr diags))"

section \<open>Package strings\<close>

text \<open>
  \<^verbatim>\<open>strings.Index\<close>: the position of the first instance of \<open>substr\<close> in \<open>s\<close>;
  Go returns -1 where the model returns \<open>None\<close>.
\<close>

fun Index :: "string \<Rightarrow> string \<Rightarrow> nat option" where
  "Index [] substr = (if substr = [] then Some 0 else None)"
| "Index (c # cs) substr =
     (if take (length substr) (c # cs) = substr then Some 0
      else map_option Suc (Index cs substr))"

lemma Index_bound: "Index s substr = Some i \<Longrightarrow> i + length substr \<le> length s"
proof (induction s arbitrary: i)
  case Nil
  then show ?case by (simp split: if_splits)
next
  case (Cons c cs)
  show ?case
  proof (cases "take (length substr) (c # cs) = substr")
    case True
    then have "length (take (length substr) (c # cs)) = length substr"
      by simp
    then have "length substr \<le> length (c # cs)"
      unfolding length_take by linarith
    with Cons.prems True show ?thesis by simp
  next
    case False
    with Cons.prems obtain i' where "Index cs substr = Some i'" "i = Suc i'"
      by auto
    with Cons.IH show ?thesis by fastforce
  qed
qed

text \<open>
  \<^verbatim>\<open>strings.Count\<close>, \<^verbatim>\<open>strings.SplitN\<close> and \<^verbatim>\<open>strings.Replace\<close> for a
  non-empty separator, which is what the source passes; on an empty separator Go works
  rune by rune, and the functions below say nothing about that case.
\<close>

function (sequential) Count :: "string \<Rightarrow> string \<Rightarrow> nat" where
  "Count s (c # cs) =
     (case Index s (c # cs) of
        None \<Rightarrow> 0
      | Some i \<Rightarrow> Suc (Count (drop (i + length (c # cs)) s) (c # cs)))"
  by pat_completeness auto
termination
proof (relation "measure (\<lambda>(s, substr). length s)")
  fix s :: string and c cs i
  assume "Index s (c # cs) = Some i"
  then have "i + length (c # cs) \<le> length s"
    by (rule Index_bound)
  then show "((drop (i + length (c # cs)) s, c # cs), (s, c # cs)) \<in> measure (\<lambda>(s, substr). length s)"
    by simp
qed simp

declare Count.simps [simp del]

text \<open>The loop of \<^verbatim>\<open>genSplit\<close>: at most \<open>n\<close> cuts, the rest unsplit.\<close>

fun genSplit_loop :: "string \<Rightarrow> string \<Rightarrow> nat \<Rightarrow> string list" where
  "genSplit_loop s sep 0 = [s]"
| "genSplit_loop s sep (Suc n) =
     (case Index s sep of
        None \<Rightarrow> [s]
      | Some m \<Rightarrow> take m s # genSplit_loop (drop (m + length sep) s) sep n)"

fun SplitN :: "string \<Rightarrow> string \<Rightarrow> int \<Rightarrow> string list" where
  "SplitN s (c # cs) n =
     (if n = 0 then []
      else let n = (if n < 0 then int (Count s (c # cs)) + 1 else n);
               n = (if n > int (length s) + 1 then int (length s) + 1 else n)
           in genSplit_loop s (c # cs) (nat (n - 1)))"

declare SplitN.simps [simp del]

text \<open>The loop of \<^verbatim>\<open>strings.Replace\<close>: \<open>n\<close> replacements from the left.\<close>

fun Replace_loop :: "string \<Rightarrow> string \<Rightarrow> string \<Rightarrow> nat \<Rightarrow> string" where
  "Replace_loop s old new 0 = s"
| "Replace_loop s old new (Suc n) =
     (case Index s old of
        None \<Rightarrow> s
      | Some j \<Rightarrow> take j s @ new @ Replace_loop (drop (j + length old) s) old new n)"

fun Replace :: "string \<Rightarrow> string \<Rightarrow> string \<Rightarrow> int \<Rightarrow> string" where
  "Replace s (c # cs) new n =
     (if c # cs = new \<or> n = 0 then s
      else let m = Count s (c # cs)
           in if m = 0 then s
              else Replace_loop s (c # cs) new (if n < 0 \<or> int m < n then m else nat n))"

declare Replace.simps [simp del]

section \<open>Package strconv\<close>

text \<open>
  \<^verbatim>\<open>strconv.Atoi\<close> on a platform whose \<^verbatim>\<open>int\<close> has 64 bits. An error is a
  \<^verbatim>\<open>*NumError\<close> with the function's name, the input and the cause.
\<close>

datatype strconv_cause = ErrSyntax | ErrRange

datatype NumError = NumError (Func: string) (Num: string) (Err: strconv_cause)

text \<open>The fast path of \<^verbatim>\<open>Atoi\<close>, for 1 to 18 bytes: \<^verbatim>\<open>ch -= '0'\<close> is byte
  arithmetic, so a byte below \<^verbatim>\<open>'0'\<close> wraps around to a value above 9.\<close>

fun atoi_digits :: "int \<Rightarrow> string \<Rightarrow> int option" where
  "atoi_digits n [] = Some n"
| "atoi_digits n (c # cs) =
     (let ch = (of_char c :: 8 word) - of_char CHR ''0''
      in if ch > 9 then None else atoi_digits (n * 10 + uint ch) cs)"

text \<open>The loop of \<^verbatim>\<open>ParseUint\<close> for base 10 and 64 bits, on \<^verbatim>\<open>uint64\<close>.\<close>

fun parseUint_loop :: "64 word \<Rightarrow> string \<Rightarrow> strconv_cause + 64 word" where
  "parseUint_loop n [] = Inr n"
| "parseUint_loop n (c # cs) =
     (if \<not> ((of_char CHR ''0'' :: nat) \<le> of_char c \<and> (of_char c :: nat) \<le> of_char CHR ''9'')
      then Inl ErrSyntax
      else let d = (of_char c :: 64 word) - of_char CHR ''0''
           in if n \<ge> (- 1) div 10 + 1 then Inl ErrRange
              else let n1 = n * 10 + d
                   in if n1 < n * 10 then Inl ErrRange else parseUint_loop n1 cs)"

definition ParseUint :: "string \<Rightarrow> strconv_cause + 64 word" where
  "ParseUint s = (if s = [] then Inl ErrSyntax else parseUint_loop 0 s)"

definition ParseInt :: "string \<Rightarrow> strconv_cause + int" where
  "ParseInt s =
     (if s = [] then Inl ErrSyntax
      else let neg = (hd s = CHR ''-'');
               s1 = (if hd s = CHR ''+'' \<or> hd s = CHR ''-'' then tl s else s)
           in case ParseUint s1 of
                Inl e \<Rightarrow> Inl e
              | Inr un \<Rightarrow>
                  if \<not> neg \<and> un \<ge> 2 ^ 63 then Inl ErrRange
                  else if neg \<and> un > 2 ^ 63 then Inl ErrRange
                  else Inr (if neg then - uint un else uint un))"

definition Atoi :: "string \<Rightarrow> NumError + int" where
  "Atoi s =
     (if 0 < length s \<and> length s < 19
      then let s0 = s;
               s = (if hd s = CHR ''-'' \<or> hd s = CHR ''+'' then tl s else s)
           in if length s < 1 then Inl (NumError ''Atoi'' s0 ErrSyntax)
              else case atoi_digits 0 s of
                     None \<Rightarrow> Inl (NumError ''Atoi'' s0 ErrSyntax)
                   | Some n \<Rightarrow> Inr (if hd s0 = CHR ''-'' then - n else n)
      else case ParseInt s of
             Inl e \<Rightarrow> Inl (NumError ''Atoi'' s e)
           | Inr i \<Rightarrow> Inr i)"

section \<open>Parsing identifiers and sizes\<close>

definition ResourceCommonParseID :: "string \<Rightarrow> string \<times> string \<times> string option" where
  "ResourceCommonParseID ident =
     (let parts = SplitN ident '':'' 2
      in if length parts \<noteq> 2 \<or> parts ! 0 = '''' \<or> parts ! 1 = ''''
         then ('''', '''',
               Some (''unexpected format of ID ('' @ ident @ ''), expected attribute1:attribute2''))
         else (parts ! 0, parts ! 1, None))"

definition StringToInt :: "string \<Rightarrow> int \<times> NumError option" where
  "StringToInt s =
     (let s = Replace s ''G'' '''' 1
      in case Atoi s of
           Inl err \<Rightarrow> (0, Some err)
         | Inr i \<Rightarrow> (i, None))"

section \<open>Retrying until success or timeout\<close>

text \<open>
  The world the loop runs in: a clock (nanoseconds) and whatever state the operation
  closes over. An operation is a \<^verbatim>\<open>FunctionWithError\<close>: it returns its error
  (\<open>None\<close> for nil) and the world it leaves, where it may have advanced the clock and
  changed its own state; an operation that panics or never returns is outside the
  model. \<^verbatim>\<open>time.Sleep\<close> returns at once on a duration that is not positive. The
  statements of the loop other than the call and the sleep take no time.
\<close>

record 's world =
  clock :: int
  store :: 's

type_synonym 's FunctionWithError = "'s world \<Rightarrow> string option \<times> 's world"

definition time_Sleep :: "int \<Rightarrow> 's world \<Rightarrow> 's world" where
  "time_Sleep d w = w\<lparr>clock := clock w + max d 0\<rparr>"

definition time_Since :: "int \<Rightarrow> 's world \<Rightarrow> int" where
  "time_Since t w = clock w - t"

text \<open>What the loop does, in order: the calls of the operation with their results,
  the comparisons of the elapsed time with the timeout, the log lines and the sleeps.\<close>

datatype event =
    Invoked "string option"
  | DeadlineChecked
  | Logged string
  | Slept int

text \<open>The function returns an error (\<open>None\<close> for nil), or the loop is still running
  when the bound on its iterations is used up.\<close>

datatype outcome = Returned "string option" | Running

text \<open>
  The \<^verbatim>\<open>for\<close> loop, with a bound on the number of iterations: the loop of the source
  has none, and an operation that keeps failing fast enough before the deadline, or a
  clock that does not advance, keeps it running.
\<close>

fun retry_loop ::
    "nat \<Rightarrow> 's FunctionWithError \<Rightarrow> int \<Rightarrow> int \<Rightarrow> int \<Rightarrow> 's world
      \<Rightarrow> outcome \<times> 's world \<times> event list" where
  "retry_loop 0 fn interval timeout start w = (Running, w, [])"
| "retry_loop (Suc k) fn interval timeout start w =
     (case fn w of
        (Some err, w1) \<Rightarrow>
          if time_Since start w1 > timeout
          then (Returned (Some ''timeout reached''), w1, [Invoked (Some err), DeadlineChecked])
          else (case retry_loop k fn interval timeout start (time_Sleep interval w1) of
                  (r, w2, evs) \<Rightarrow>
                    (r, w2, [Invoked (Some err), DeadlineChecked,
                             Logged (''[INFO] Retrying after error: '' @ err),
                             Slept interval] @ evs))
      | (None, w1) \<Rightarrow> (Returned None, w1, [Invoked None]))"

definition RetryUntilSuccessOrTimeout ::
    "nat \<Rightarrow> 's FunctionWithError \<Rightarrow> int \<Rightarrow> int \<Rightarrow> 's world
      \<Rightarrow> outcome \<times> 's world \<times> event list" where
  "RetryUntilSuccessOrTimeout k fn interval timeout w =
     (let start = clock w in retry_loop k fn interval timeout start w)"

text \<open>
  The world in which the loop makes its call number \<open>n\<close> (counted from 0), when it
  gets that far: each earlier call has failed and was followed by the sleep.
\<close>

fun attempt_world :: "'s FunctionWithError \<Rightarrow> int \<Rightarrow> 's world \<Rightarrow> nat \<Rightarrow> 's world" where
  "attempt_world fn interval w 0 = w"
| "attempt_world fn interval w (Suc n) =
     attempt_world fn interval (time_Sleep interval (snd (fn w))) n"

text \<open>The results of the calls that a trace records, in order.\<close>

fun invocations :: "event list \<Rightarrow> string option list" where
  "invocations [] = []"
| "invocations (Invoked x # evs) = x # invocations evs"
| "invocations (e # evs) = invocations evs"

text \<open>Two operations to run the loop on: one that fails twice and then succeeds,
  and one that always fails; each call takes a millisecond.\<close>

definition fails_twice :: "nat FunctionWithError" where
  "fails_twice w =
     (if store w < 2 then Some ''not ready'' else None,
      w\<lparr>clock := clock w + 1000000, store := store w + 1\<rparr>)"

definition always_fails :: "nat FunctionWithError" where
  "always_fails w = (Some ''boom'', w\<lparr>clock := clock w + 1000000, store := store w + 1\<rparr>)"

section \<open>What the two regular expressions match\<close>

lemma in_class_single: "in_class ((a, a) # rs) c \<longleftrightarrow> c = a \<or> in_class rs c"
  by (auto simp: in_class_def)

lemma in_class_Nil: "\<not> in_class [] c"
  by (simp add: in_class_def)

lemma in_class_space: "in_class perl_space c \<longleftrightarrow> c \<in> space_chars"
  by (auto simp: perl_space_def space_chars_def in_class_single in_class_Nil)

lemma space_not_name_char: "c \<in> space_chars \<Longrightarrow> \<not> in_class name_chars c"
  by (auto simp: space_chars_def in_class_def name_chars_def)

text \<open>A repeated class matches exactly the non-empty stretches of class members.\<close>

lemma rmatch_Plus_CharClass:
  "rmatch (Plus (CharClass rs)) s i j
     \<longleftrightarrow> i < j \<and> j \<le> length s \<and> (\<forall>k\<in>{i..<j}. in_class rs (s ! k))"
proof (induction "j - i" arbitrary: i)
  case 0
  then show ?case by (subst rmatch.simps(5)) auto
next
  case (Suc n)
  then have ij: "i < j" and n: "n = j - Suc i" by auto
  have step: "rmatch (Plus (CharClass rs)) s i j \<longleftrightarrow>
      i < length s \<and> in_class rs (s ! i)
      \<and> (j = Suc i \<or> (Suc i < j \<and> rmatch (Plus (CharClass rs)) s (Suc i) j))"
    by (subst rmatch.simps(5)) auto
  have all: "(\<forall>k\<in>{i..<j}. in_class rs (s ! k))
      \<longleftrightarrow> in_class rs (s ! i) \<and> (\<forall>k\<in>{Suc i..<j}. in_class rs (s ! k))"
  proof -
    have "{i..<j} = insert i {Suc i..<j}"
      using ij by auto
    then show ?thesis by simp
  qed
  show ?case
    unfolding step Suc.hyps(1)[OF n] all using ij by auto
qed

lemma Match_whiteSpace: "Match whiteSpace s \<longleftrightarrow> (\<exists>c\<in>set s. c \<in> space_chars)"
proof
  assume "Match whiteSpace s"
  then obtain i j where "i < j" "j \<le> length s" "\<forall>k\<in>{i..<j}. in_class perl_space (s ! k)"
    by (auto simp: Match_def whiteSpace_def rmatch_Plus_CharClass)
  then have "i < length s" "s ! i \<in> space_chars"
    by (auto simp: in_class_space)
  then show "\<exists>c\<in>set s. c \<in> space_chars"
    using nth_mem by blast
next
  assume "\<exists>c\<in>set s. c \<in> space_chars"
  then obtain i where i: "i < length s" "s ! i \<in> space_chars"
    by (auto simp: in_set_conv_nth)
  then have "rmatch whiteSpace s i (Suc i)"
    by (simp add: whiteSpace_def rmatch_Plus_CharClass in_class_space)
  with i(1) show "Match whiteSpace s"
    unfolding Match_def by (intro bexI[of _ i] bexI[of _ "Suc i"]) auto
qed

lemma Match_alphanumeric:
  "Match alphanumeric s \<longleftrightarrow> s \<noteq> [] \<and> (\<forall>c\<in>set s. in_class name_chars c)"
proof -
  have "Match alphanumeric s \<longleftrightarrow> rmatch (Plus (CharClass name_chars)) s 0 (length s)"
    by (auto simp: Match_def alphanumeric_def)
  also have "\<dots> \<longleftrightarrow> s \<noteq> [] \<and> (\<forall>k<length s. in_class name_chars (s ! k))"
    by (auto simp: rmatch_Plus_CharClass)
  also have "\<dots> \<longleftrightarrow> s \<noteq> [] \<and> (\<forall>c\<in>set s. in_class name_chars c)"
    by (auto simp: all_set_conv_all_nth)
  finally show ?thesis .
qed

lemma format_d_64: "format_d 64 = ''64''"
  by (simp add: format_d.simps digit_char_def)

section \<open>The validators on values that are not strings\<close>

text \<open>
  Claim C1. On a value that is not a string, each validator returns exactly one
  type-mismatch error and no warnings, without panicking. \<^const>\<open>ValidateName\<close>,
  \<^const>\<open>ValidateCNIName\<close> and \<^const>\<open>ValidateNameSize\<close> do;
  \<^const>\<open>ValidateNameOnlyContainsAlphanumericCharacters\<close> panics instead, in the
  single-value type assertion of its first statement, before the check that would
  report the mismatch.
\<close>

theorem C1_non_string_input:
  "ValidateName (VOther x) = ([], [''expected name to be string''])
   \<and> ValidateCNIName (VOther x) = ([], [''expected CNI to be string''])
   \<and> ValidateNameSize (VOther x) = ([], [''expected name to be string''])
   \<and> ValidateNameOnlyContainsAlphanumericCharacters (VOther x) = Inl TypeAssertionPanic"
  by (simp add: ValidateName_def ValidateCNIName_def ValidateNameSize_def
      ValidateNameOnlyContainsAlphanumericCharacters_def)

section \<open>The validators on strings\<close>

text \<open>
  Claim C5, amended. On a string that holds a character of the class \<^verbatim>\<open>\s\<close> of
  the source's expression (\<^const>\<open>space_chars\<close>: tab, line feed, form feed, carriage
  return or space), each of the four validators reports the whitespace error: the three
  schema validators return it as their only error, and it is among the diagnostics of
  the fourth.
\<close>

theorem C5_whitespace_error:
  assumes "\<exists>c\<in>set s. c \<in> space_chars"
  shows "ValidateName (VString s) = ([], [''name cannot contain whitespace. Got '' @ s])
   \<and> ValidateCNIName (VString s) = ([], [''CNI cannot contain whitespace. Got '' @ s])
   \<and> ValidateNameSize (VString s) = ([], [''name cannot contain whitespace. Got '' @ s])
   \<and> (\<exists>ds. ValidateNameOnlyContainsAlphanumericCharacters (VString s) = Inr ds
         \<and> \<lparr>Severity = Error, Summary = ''cannot contain whitespace'',
             Detail = ''name cannot contain whitespace. Got '' @ s\<rparr> \<in> set ds)"
proof -
  from assms have "Match whiteSpace s"
    by (simp add: Match_whiteSpace)
  then show ?thesis
    by (simp add: ValidateName_def ValidateCNIName_def ValidateNameSize_def
        ValidateNameOnlyContainsAlphanumericCharacters_def Let_def)
qed

theorem C5_whitespace_error_witness:
  "ValidateName (VString ''my name'' :: unit go_value)
     = ([], [''name cannot contain whitespace. Got my name''])
   \<and> ValidateCNIName (VString ''my name'' :: unit go_value)
     = ([], [''CNI cannot contain whitespace. Got my name''])
   \<and> ValidateNameSize (VString ''my name'' :: unit go_value)
     = ([], [''name cannot contain whitespace. Got my name''])
   \<and> (\<exists>ds. ValidateNameOnlyContainsAlphanumericCharacters (VString ''my name'' :: unit go_value)
           = Inr ds
         \<and> \<lparr>Severity = Error, Summary = ''cannot contain whitespace'',
             Detail = ''name cannot contain whitespace. Got my name''\<rparr> \<in> set ds)"
proof -
  have h: "\<exists>c\<in>set ''my name''. c \<in> space_chars"
    by (simp add: space_chars_def)
  show ?thesis
    using C5_whitespace_error [OF h, where ?'a = unit] by simp
qed

text \<open>
  Claim C5 as it is worded, for every whitespace character, does not hold: the vertical
  tab is white space and is not in the class \<^verbatim>\<open>\s\<close>, so no validator reports
  whitespace on a string whose only white space is a vertical tab.
\<close>

theorem C5_whitespace_error_counterexample:
  "CHR 0x0B \<in> ascii_space_chars
   \<and> CHR 0x0B \<in> set [CHR ''a'', CHR 0x0B, CHR ''b'']
   \<and> ValidateName (VString [CHR ''a'', CHR 0x0B, CHR ''b''] :: unit go_value) = ([], [])
   \<and> ValidateCNIName (VString [CHR ''a'', CHR 0x0B, CHR ''b''] :: unit go_value)
       = ([], [''CNI plugin provided isn't valid/supported''])
   \<and> ValidateNameSize (VString [CHR ''a'', CHR 0x0B, CHR ''b''] :: unit go_value) = ([], [])
   \<and> ValidateNameOnlyContainsAlphanumericCharacters
         (VString [CHR ''a'', CHR 0x0B, CHR ''b''] :: unit go_value)
       = Inr [\<lparr>Severity = Error, Summary = ''alphanumeric characters'',
                Detail = ''name can only contain alphanumeric characters, hyphens, underscores and dots. Got ''
                           @ [CHR ''a'', CHR 0x0B, CHR ''b'']\<rparr>]"
  by (simp add: ascii_space_chars_def ValidateName_def ValidateCNIName_def ValidateNameSize_def
      ValidateNameOnlyContainsAlphanumericCharacters_def Match_whiteSpace Match_alphanumeric
      space_chars_def in_class_def name_chars_def)

text \<open>
  Claim C6. On a string without whitespace, \<^const>\<open>ValidateNameSize\<close> returns the
  length error when the string is longer than 63 bytes, and no error (and no warning)
  when its length is exactly 63.
\<close>

theorem C6_name_size:
  assumes "\<forall>c\<in>set s. c \<notin> space_chars"
  shows "(length s > 63 \<longrightarrow>
            ValidateNameSize (VString s)
              = ([], [''the len of the name has to be less than 63. Got '' @ format_d (length s)]))
       \<and> (length s = 63 \<longrightarrow> ValidateNameSize (VString s) = ([], []))"
proof -
  from assms have "\<not> Match whiteSpace s"
    by (simp add: Match_whiteSpace)
  then show ?thesis
    by (simp add: ValidateNameSize_def)
qed

theorem C6_name_size_witness:
  "ValidateNameSize (VString (replicate 64 CHR ''a'') :: unit go_value)
     = ([], [''the len of the name has to be less than 63. Got 64''])
   \<and> ValidateNameSize (VString (replicate 63 CHR ''a'') :: unit go_value) = ([], [])"
proof -
  have h: "\<forall>c\<in>set (replicate n CHR ''a''). c \<notin> space_chars" for n
    by (simp add: space_chars_def)
  show ?thesis
    using C6_name_size [OF h [of 64], where ?'a = unit]
      C6_name_size [OF h [of 63], where ?'a = unit]
    by (simp add: format_d_64)
qed

text \<open>
  Claim C7, amended. \<^const>\<open>ValidateNameOnlyContainsAlphanumericCharacters\<close> returns no
  diagnostic on a string that matches \<^verbatim>\<open>^[a-zA-Z0-9-_.]+$\<close> (by
  \<open>Match_alphanumeric\<close>, a non-empty string of letters, digits, hyphens, underscores
  and dots); the whitespace diagnostic followed by
  the character-set diagnostic on a string with a character of the class \<^verbatim>\<open>\s\<close>
  (\<^const>\<open>space_chars\<close>) and a character outside the class of names; and the
  character-set diagnostic alone on a string without such whitespace that has a
  character outside the class of names.
\<close>

theorem C7_alphanumeric:
  "(Match alphanumeric s \<longrightarrow>
      ValidateNameOnlyContainsAlphanumericCharacters (VString s) = Inr [])
   \<and> ((\<exists>c\<in>set s. c \<in> space_chars) \<and> (\<exists>c\<in>set s. \<not> in_class name_chars c) \<longrightarrow>
      ValidateNameOnlyContainsAlphanumericCharacters (VString s)
        = Inr [\<lparr>Severity = Error, Summary = ''cannot contain whitespace'',
                 Detail = ''name cannot contain whitespace. Got '' @ s\<rparr>,
               \<lparr>Severity = Error, Summary = ''alphanumeric characters'',
                 Detail = ''name can only contain alphanumeric characters, hyphens, underscores and dots. Got '' @ s\<rparr>])
   \<and> ((\<forall>c\<in>set s. c \<notin> space_chars) \<and> (\<exists>c\<in>set s. \<not> in_class name_chars c) \<longrightarrow>
      ValidateNameOnlyContainsAlphanumericCharacters (VString s)
        = Inr [\<lparr>Severity = Error, Summary = ''alphanumeric characters'',
                 Detail = ''name can only contain alphanumeric characters, hyphens, underscores and dots. Got '' @ s\<rparr>])"
proof -
  have a: "(\<forall>c\<in>set s. in_class name_chars c) \<Longrightarrow> \<not> Match whiteSpace s"
    using space_not_name_char by (auto simp: Match_whiteSpace)
  show ?thesis
    using a by (auto simp: ValidateNameOnlyContainsAlphanumericCharacters_def
        Match_alphanumeric Match_whiteSpace)
qed

theorem C7_alphanumeric_witness:
  "ValidateNameOnlyContainsAlphanumericCharacters (VString ''my-name_1.A'' :: unit go_value) = Inr []
   \<and> ValidateNameOnlyContainsAlphanumericCharacters (VString ''bad name!'' :: unit go_value)
        = Inr [\<lparr>Severity = Error, Summary = ''cannot contain whitespace'',
                 Detail = ''name cannot contain whitespace. Got bad name!''\<rparr>,
               \<lparr>Severity = Error, Summary = ''alphanumeric characters'',
                 Detail = ''name can only contain alphanumeric characters, hyphens, underscores and dots. Got bad name!''\<rparr>]
   \<and> ValidateNameOnlyContainsAlphanumericCharacters (VString ''bad!name'' :: unit go_value)
        = Inr [\<lparr>Severity = Error, Summary = ''alphanumeric characters'',
                 Detail = ''name can only contain alphanumeric characters, hyphens, underscores and dots. Got bad!name''\<rparr>]"
proof -
  have h1: "Match alphanumeric ''my-name_1.A''"
    by (simp add: Match_alphanumeric in_class_def name_chars_def)
  have h2: "(\<exists>c\<in>set ''bad name!''. c \<in> space_chars)
      \<and> (\<exists>c\<in>set ''bad name!''. \<not> in_class name_chars c)"
    by (simp add: in_class_def name_chars_def space_chars_def)
  have h3: "(\<forall>c\<in>set ''bad!name''. c \<notin> space_chars)
      \<and> (\<exists>c\<in>set ''bad!name''. \<not> in_class name_chars c)"
    by (simp add: in_class_def name_chars_def space_chars_def)
  have a: "ValidateNameOnlyContainsAlphanumericCharacters (VString ''my-name_1.A'' :: unit go_value)
        = Inr []"
    using h1 C7_alphanumeric [of "''my-name_1.A''", where ?'a = unit] by blast
  have b: "ValidateNameOnlyContainsAlphanumericCharacters (VString ''bad name!'' :: unit go_value)
        = Inr [\<lparr>Severity = Error, Summary = ''cannot contain whitespace'',
                 Detail = ''name cannot contain whitespace. Got '' @ ''bad name!''\<rparr>,
               \<lparr>Severity = Error, Summary = ''alphanumeric characters'',
                 Detail = ''name can only contain alphanumeric characters, hyphens, underscores and dots. Got '' @ ''bad name!''\<rparr>]"
    using h2 C7_alphanumeric [of "''bad name!''", where ?'a = unit] by blast
  have c: "ValidateNameOnlyContainsAlphanumericCharacters (VString ''bad!name'' :: unit go_value)
        = Inr [\<lparr>Severity = Error, Summary = ''alphanumeric characters'',
                 Detail = ''name can only contain alphanumeric characters, hyphens, underscores and dots. Got '' @ ''bad!name''\<rparr>]"
    using h3 C7_alphanumeric [of "''bad!name''", where ?'a = unit] by blast
  show ?thesis
    using a b c by simp
qed

text \<open>
  Claim C7 as it is worded does not hold in its second case: a string with a vertical
  tab and an exclamation mark has white space and a character outside the class, and
  gets the character-set diagnostic alone.
\<close>

theorem C7_alphanumeric_counterexample:
  "CHR 0x0B \<in> ascii_space_chars
   \<and> CHR 0x0B \<in> set [CHR ''a'', CHR 0x0B, CHR ''b'', CHR ''!'']
   \<and> CHR ''!'' \<in> set [CHR ''a'', CHR 0x0B, CHR ''b'', CHR ''!'']
   \<and> \<not> in_class name_chars CHR ''!''
   \<and> ValidateNameOnlyContainsAlphanumericCharacters
         (VString [CHR ''a'', CHR 0x0B, CHR ''b'', CHR ''!''] :: unit go_value)
       = Inr [\<lparr>Severity = Error, Summary = ''alphanumeric characters'',
                Detail = ''name can only contain alphanumeric characters, hyphens, underscores and dots. Got ''
                           @ [CHR ''a'', CHR 0x0B, CHR ''b'', CHR ''!'']\<rparr>]"
  by (simp add: ascii_space_chars_def ValidateNameOnlyContainsAlphanumericCharacters_def
      Match_whiteSpace Match_alphanumeric space_chars_def in_class_def name_chars_def)

section \<open>The retry loop\<close>

text \<open>One iteration: the operation succeeds, or it fails after the deadline, or it
  fails before the deadline and the loop goes on after the log line and the sleep.\<close>

lemma retry_loop_Suc_cases:
  assumes "retry_loop (Suc k) fn interval timeout start w = (r, w', evs)"
  obtains (success) "fn w = (None, w')" "r = Returned None" "evs = [Invoked None]"
  | (timeout) err where "fn w = (Some err, w')" "time_Since start w' > timeout"
      "r = Returned (Some ''timeout reached'')" "evs = [Invoked (Some err), DeadlineChecked]"
  | (retry) err w1 evs2 where "fn w = (Some err, w1)" "\<not> time_Since start w1 > timeout"
      "retry_loop k fn interval timeout start (time_Sleep interval w1) = (r, w', evs2)"
      "evs = Invoked (Some err) # DeadlineChecked
               # Logged (''[INFO] Retrying after error: '' @ err) # Slept interval # evs2"
  using assms by (auto split: prod.splits option.splits if_splits)

lemma retry_loop_first_event:
  assumes "retry_loop (Suc k) fn interval timeout start w = (r, w', evs)"
  shows "\<exists>x rest. evs = Invoked x # rest"
  using assms by (cases rule: retry_loop_Suc_cases) auto


lemma retry_loop_success_iff:
  "retry_loop k fn interval timeout start w = (r, w', evs)
   \<Longrightarrow> r = Returned None \<longleftrightarrow> Invoked None \<in> set evs"
proof (induction k arbitrary: w evs)
  case 0
  then show ?case by auto
next
  case (Suc k)
  from Suc.prems show ?case
  proof (cases rule: retry_loop_Suc_cases)
    case (retry err w1 evs2)
    with Suc.IH[OF retry(3)] show ?thesis by simp
  qed auto
qed

lemma retry_loop_success_last:
  "retry_loop k fn interval timeout start w = (r, w', evs)
   \<Longrightarrow> i < length evs \<Longrightarrow> evs ! i = Invoked None \<Longrightarrow> Suc i = length evs"
proof (induction k arbitrary: w evs i)
  case 0
  then show ?case by auto
next
  case (Suc k)
  from Suc.prems(1) show ?case
  proof (cases rule: retry_loop_Suc_cases)
    case success
    with Suc.prems show ?thesis by simp
  next
    case (timeout err)
    with Suc.prems show ?thesis by (cases i) auto
  next
    case (retry err w1 evs2)
    show ?thesis
    proof (cases "i < 4")
      case True
      then consider "i = 0" | "i = 1" | "i = 2" | "i = 3" by linarith
      then show ?thesis using Suc.prems(3) retry(4) by cases auto
    next
      case False
      then obtain j where j: "i = j + 4" by (metis add.commute le_Suc_ex not_less)
      with Suc.prems(2,3) retry(4) have "j < length evs2" "evs2 ! j = Invoked None" by auto
      from Suc.IH[OF retry(3) this] show ?thesis using j retry(4) by simp
    qed
  qed
qed

lemma retry_loop_error:
  "retry_loop k fn interval timeout start w = (Returned (Some e), w', evs)
   \<Longrightarrow> e = ''timeout reached'' \<and> (\<exists>pre e'. evs = pre @ [Invoked (Some e'), DeadlineChecked])"
proof (induction k arbitrary: w evs)
  case 0
  then show ?case by auto
next
  case (Suc k)
  from Suc.prems show ?case
  proof (cases rule: retry_loop_Suc_cases)
    case (retry err w1 evs2)
    from Suc.IH[OF retry(3)] obtain pre e' where
      "e = ''timeout reached''" "evs2 = pre @ [Invoked (Some e'), DeadlineChecked]" by blast
    with retry(4) show ?thesis by (metis append_Cons)
  qed auto
qed

text \<open>The bound on the iterations does not change a result: once the loop has
  returned within a bound, it returns the same with any larger one.\<close>

lemma retry_loop_more_fuel:
  "retry_loop k fn interval timeout start w = (Returned r, w', evs)
   \<Longrightarrow> retry_loop (k + m) fn interval timeout start w = (Returned r, w', evs)"
proof (induction k arbitrary: w evs)
  case 0
  then show ?case by auto
next
  case (Suc k)
  from Suc.prems show ?case
  proof (cases rule: retry_loop_Suc_cases)
    case (retry err w1 evs2)
    with Suc.IH[OF retry(3)] show ?thesis by simp
  qed auto
qed

text \<open>The trace and the result against the operation itself: the invocations of
  a trace are the operation's results on the successive worlds, a run that returns has
  called the operation and returns in the world its last call left, and it returns nil
  exactly when a call returns nil that the loop gets to.\<close>

lemma retry_loop_invocations:
  "retry_loop k fn interval timeout start w = (r, w', evs)
   \<Longrightarrow> invocations evs
       = map (\<lambda>n. fst (fn (attempt_world fn interval w n))) [0..<length (invocations evs)]"
proof (induction k arbitrary: w evs)
  case 0
  then show ?case by auto
next
  case (Suc k)
  from Suc.prems show ?case
  proof (cases rule: retry_loop_Suc_cases)
    case (retry err w1 evs2)
    from Suc.IH[OF retry(3)]
    have "invocations evs2
       = map (\<lambda>n. fst (fn (attempt_world fn interval w (Suc n)))) [0..<length (invocations evs2)]"
      using retry(1) by simp
    with retry(1,4) show ?thesis
      by (simp add: map_upt_Suc del: upt_Suc)
  qed auto
qed

lemma retry_loop_returned_invoked:
  "retry_loop k fn interval timeout start w = (Returned x, w', evs) \<Longrightarrow> invocations evs \<noteq> []"
proof (cases k)
  case 0
  assume "retry_loop k fn interval timeout start w = (Returned x, w', evs)"
  with 0 show ?thesis by simp
next
  case (Suc k')
  assume "retry_loop k fn interval timeout start w = (Returned x, w', evs)"
  with Suc have "retry_loop (Suc k') fn interval timeout start w = (Returned x, w', evs)" by simp
  then show ?thesis by (cases rule: retry_loop_Suc_cases) auto
qed

lemma retry_loop_final_world:
  "retry_loop k fn interval timeout start w = (Returned x, w', evs)
   \<Longrightarrow> w' = snd (fn (attempt_world fn interval w (length (invocations evs) - 1)))"
proof (induction k arbitrary: w evs)
  case 0
  then show ?case by auto
next
  case (Suc k)
  from Suc.prems show ?case
  proof (cases rule: retry_loop_Suc_cases)
    case (retry err w1 evs2)
    from retry_loop_returned_invoked[OF retry(3)] obtain n where n: "length (invocations evs2) = Suc n"
      by (cases "invocations evs2") auto
    with Suc.IH[OF retry(3)] retry(1,4) show ?thesis by simp
  qed auto
qed

lemma ex_less_Suc_shift: "(\<exists>n<Suc k. Q n) \<longleftrightarrow> Q 0 \<or> (\<exists>n<k. Q (Suc n))"
  by (auto simp: less_Suc_eq_0_disj)

lemma all_less_Suc_shift: "(\<forall>m<Suc n. R m) \<longleftrightarrow> R 0 \<and> (\<forall>m<n. R (Suc m))"
  by (auto simp: less_Suc_eq_0_disj)

lemma retry_loop_success_char:
  "retry_loop k fn interval timeout start w = (r, w', evs)
   \<Longrightarrow> r = Returned None \<longleftrightarrow>
       (\<exists>n<k. fst (fn (attempt_world fn interval w n)) = None
          \<and> (\<forall>m<n. fst (fn (attempt_world fn interval w m)) \<noteq> None
                  \<and> \<not> timeout < time_Since start (snd (fn (attempt_world fn interval w m)))))"
proof (induction k arbitrary: w evs)
  case 0
  then show ?case by auto
next
  case (Suc k)
  from Suc.prems show ?case
  proof (cases rule: retry_loop_Suc_cases)
    case success
    then show ?thesis
      unfolding ex_less_Suc_shift by simp
  next
    case (timeout err)
    then show ?thesis
      unfolding ex_less_Suc_shift all_less_Suc_shift by simp
  next
    case (retry err w1 evs2)
    from Suc.IH[OF retry(3)] retry(1,2) show ?thesis
      unfolding ex_less_Suc_shift all_less_Suc_shift by simp
  qed
qed


lemma run_fails_twice:
  "RetryUntilSuccessOrTimeout 5 fails_twice 10000000 1000000000 \<lparr>clock = 0, store = 0\<rparr>
     = (Returned None, \<lparr>clock = 23000000, store = 3\<rparr>,
        [Invoked (Some ''not ready''), DeadlineChecked,
         Logged ''[INFO] Retrying after error: not ready'', Slept 10000000,
         Invoked (Some ''not ready''), DeadlineChecked,
         Logged ''[INFO] Retrying after error: not ready'', Slept 10000000,
         Invoked None])"
  by (simp add: RetryUntilSuccessOrTimeout_def fails_twice_def time_Since_def time_Sleep_def
      eval_nat_numeral)

lemma run_always_fails:
  "RetryUntilSuccessOrTimeout 8 always_fails 10000000 50000000 \<lparr>clock = 0, store = 0\<rparr>
     = (Returned (Some ''timeout reached''), \<lparr>clock = 56000000, store = 6\<rparr>,
        [Invoked (Some ''boom''), DeadlineChecked,
         Logged ''[INFO] Retrying after error: boom'', Slept 10000000,
         Invoked (Some ''boom''), DeadlineChecked,
         Logged ''[INFO] Retrying after error: boom'', Slept 10000000,
         Invoked (Some ''boom''), DeadlineChecked,
         Logged ''[INFO] Retrying after error: boom'', Slept 10000000,
         Invoked (Some ''boom''), DeadlineChecked,
         Logged ''[INFO] Retrying after error: boom'', Slept 10000000,
         Invoked (Some ''boom''), DeadlineChecked,
         Logged ''[INFO] Retrying after error: boom'', Slept 10000000,
         Invoked (Some ''boom''), DeadlineChecked])"
  by (simp add: RetryUntilSuccessOrTimeout_def always_fails_def time_Since_def time_Sleep_def
      eval_nat_numeral)



text \<open>
  Claim C3. \<^const>\<open>RetryUntilSuccessOrTimeout\<close> returns nil exactly when an invocation
  of the operation returned nil: when some call of the sequence returns nil and every
  call before it failed with the deadline not yet passed, so that the loop got as far.
  The invocations of the trace are the operation's results on the successive worlds,
  the successful invocation is the last thing the run does (no invocation, deadline
  check, log line or sleep follows it), and the run returns in the world that call left.
\<close>

theorem C3_success_iff_invocation_succeeded:
  assumes "RetryUntilSuccessOrTimeout k fn interval timeout w = (r, w', evs)"
  shows "(r = Returned None \<longleftrightarrow>
           (\<exists>n<k. fst (fn (attempt_world fn interval w n)) = None
              \<and> (\<forall>m<n. fst (fn (attempt_world fn interval w m)) \<noteq> None
                      \<and> \<not> timeout < time_Since (clock w)
                                       (snd (fn (attempt_world fn interval w m))))))
       \<and> invocations evs
           = map (\<lambda>n. fst (fn (attempt_world fn interval w n))) [0..<length (invocations evs)]
       \<and> (r = Returned None \<longleftrightarrow> Invoked None \<in> set evs)
       \<and> (\<forall>i<length evs. evs ! i = Invoked None \<longrightarrow> Suc i = length evs)
       \<and> (r = Returned None
             \<longrightarrow> w' = snd (fn (attempt_world fn interval w (length (invocations evs) - 1))))"
proof -
  from assms have run: "retry_loop k fn interval timeout (clock w) w = (r, w', evs)"
    by (simp only: RetryUntilSuccessOrTimeout_def Let_def)
  have world: "w' = snd (fn (attempt_world fn interval w (length (invocations evs) - 1)))"
    if "r = Returned None"
    using run that retry_loop_final_world by blast
  show ?thesis
    using retry_loop_success_char[OF run] retry_loop_invocations[OF run]
      retry_loop_success_iff[OF run] retry_loop_success_last[OF run] world
    by blast
qed

theorem C3_success_iff_invocation_succeeded_witness:
  "RetryUntilSuccessOrTimeout 5 fails_twice 10000000 1000000000 \<lparr>clock = 0, store = 0\<rparr>
     = (Returned None, \<lparr>clock = 23000000, store = 3\<rparr>,
        [Invoked (Some ''not ready''), DeadlineChecked,
         Logged ''[INFO] Retrying after error: not ready'', Slept 10000000,
         Invoked (Some ''not ready''), DeadlineChecked,
         Logged ''[INFO] Retrying after error: not ready'', Slept 10000000,
         Invoked None])
   \<and> fails_twice (attempt_world fails_twice 10000000 \<lparr>clock = 0, store = 0\<rparr> 2)
       = (None, \<lparr>clock = 23000000, store = 3\<rparr>)
   \<and> fst (fails_twice (attempt_world fails_twice 10000000 \<lparr>clock = 0, store = 0\<rparr> 1))
       = Some ''not ready''
   \<and> fst (fails_twice (attempt_world fails_twice 10000000 \<lparr>clock = 0, store = 0\<rparr> 0))
       = Some ''not ready''"
  using C3_success_iff_invocation_succeeded [OF run_fails_twice] run_fails_twice
  by (simp add: fails_twice_def time_Sleep_def eval_nat_numeral)

text \<open>
  Claim C4. An error that \<^const>\<open>RetryUntilSuccessOrTimeout\<close> returns is the timeout
  error with the message \<^verbatim>\<open>timeout reached\<close>, whatever error the last invocation
  of the operation produced: the run ends with a failed invocation and the deadline
  check, and the operation's error is not returned.
\<close>

theorem C4_only_timeout_error:
  assumes "RetryUntilSuccessOrTimeout k fn interval timeout w = (Returned (Some e), w', evs)"
  shows "e = ''timeout reached''
       \<and> (\<exists>pre e'. evs = pre @ [Invoked (Some e'), DeadlineChecked])"
proof -
  from assms
  have run: "retry_loop k fn interval timeout (clock w) w = (Returned (Some e), w', evs)"
    by (simp only: RetryUntilSuccessOrTimeout_def Let_def)
  then show ?thesis
    by (rule retry_loop_error)
qed

theorem C4_only_timeout_error_witness:
  "fst (RetryUntilSuccessOrTimeout 8 always_fails 10000000 50000000 \<lparr>clock = 0, store = 0\<rparr>)
     = Returned (Some ''timeout reached'')
   \<and> ''timeout reached'' \<noteq> ''boom''
   \<and> Invoked (Some ''boom'')
       \<in> set (snd (snd (RetryUntilSuccessOrTimeout 8 always_fails 10000000 50000000
                          \<lparr>clock = 0, store = 0\<rparr>)))"
  using C4_only_timeout_error [OF run_always_fails] run_always_fails
  by simp

section \<open>Cutting at the first separator\<close>

lemma Index_single:
  "Index s [c] = (if c \<in> set s then Some (length (takeWhile (\<lambda>x. x \<noteq> c) s)) else None)"
  by (induction s) auto

lemma Count_zero_iff: "Count s (c # cs) = 0 \<longleftrightarrow> Index s (c # cs) = None"
  by (subst Count.simps) (simp split: option.splits)

lemma take_takeWhile_length: "take (length (takeWhile P s)) s = takeWhile P s"
  by (induction s) auto

lemma drop_takeWhile_length: "drop (length (takeWhile P s)) s = dropWhile P s"
  by (induction s) auto

lemma drop_Suc_takeWhile_length: "drop (Suc (length (takeWhile P s))) s = tl (dropWhile P s)"
proof -
  have "drop (Suc (length (takeWhile P s))) s = tl (drop (length (takeWhile P s)) s)"
    by (simp add: drop_Suc tl_drop)
  then show ?thesis
    by (simp add: drop_takeWhile_length)
qed

lemma remove1_split_first:
  "c \<in> set s \<Longrightarrow> remove1 c s = takeWhile (\<lambda>x. x \<noteq> c) s @ tl (dropWhile (\<lambda>x. x \<noteq> c) s)"
  by (induction s) auto

text \<open>Replacing one instance of a single byte by nothing deletes the first
  occurrence of the byte.\<close>

lemma Replace_first_char: "Replace s [c] [] 1 = remove1 c s"
proof (cases "c \<in> set s")
  case True
  then have "Count s [c] \<noteq> 0"
    by (simp add: Count_zero_iff Index_single)
  then have "Replace s [c] [] 1 = Replace_loop s [c] [] (Suc 0)"
    by (auto simp: Let_def Replace.simps)
  also have "\<dots> = remove1 c s"
    using True by (simp add: Index_single take_takeWhile_length drop_Suc_takeWhile_length
        remove1_split_first)
  finally show ?thesis .
next
  case False
  then have "Count s [c] = 0"
    by (simp add: Count_zero_iff Index_single)
  with False show ?thesis
    by (simp add: remove1_idem Replace.simps)
qed

lemma SplitN_single_2:
  "SplitN s [c] 2 =
     (if c \<in> set s then [takeWhile (\<lambda>x. x \<noteq> c) s, tl (dropWhile (\<lambda>x. x \<noteq> c) s)] else [s])"
proof (cases "s = []")
  case True
  then show ?thesis by (simp add: SplitN.simps)
next
  case False
  then have "length s \<ge> 1" by (cases s) auto
  then have "SplitN s [c] 2 = genSplit_loop s [c] (Suc 0)"
    by (simp add: Let_def SplitN.simps)
  then show ?thesis
    by (simp add: Index_single take_takeWhile_length drop_Suc_takeWhile_length)
qed

lemma split_at_first:
  assumes "s = a @ c # b" "c \<notin> set a"
  shows "takeWhile (\<lambda>x. x \<noteq> c) s = a" "tl (dropWhile (\<lambda>x. x \<noteq> c) s) = b"
  using assms by (induction a arbitrary: s) auto

lemma first_split:
  assumes "c \<in> set s"
  shows "s = takeWhile (\<lambda>x. x \<noteq> c) s @ c # tl (dropWhile (\<lambda>x. x \<noteq> c) s)"
    and "c \<notin> set (takeWhile (\<lambda>x. x \<noteq> c) s)"
  using assms by (induction s) auto

lemma ResourceCommonParseID_eq:
  "ResourceCommonParseID ident =
     (let a = takeWhile (\<lambda>x. x \<noteq> CHR '':'') ident;
          b = tl (dropWhile (\<lambda>x. x \<noteq> CHR '':'') ident)
      in if CHR '':'' \<in> set ident \<and> a \<noteq> [] \<and> b \<noteq> [] then (a, b, None)
         else ('''', '''',
               Some (''unexpected format of ID ('' @ ident @ ''), expected attribute1:attribute2'')))"
  by (simp add: ResourceCommonParseID_def SplitN_single_2 Let_def)

lemma ResourceCommonParseID_split:
  assumes "ident = a @ '':'' @ b" "CHR '':'' \<notin> set a" "a \<noteq> []" "b \<noteq> []"
  shows "ResourceCommonParseID ident = (a, b, None)"
proof -
  from assms(1) have eq: "ident = a @ CHR '':'' # b" by simp
  have "CHR '':'' \<in> set ident" using eq by simp
  then show ?thesis
    using assms(3,4) split_at_first[OF eq assms(2)]
    by (simp add: ResourceCommonParseID_eq)
qed

lemma ResourceCommonParseID_ok:
  assumes "ResourceCommonParseID ident = (a, b, None)"
  shows "ident = a @ '':'' @ b \<and> CHR '':'' \<notin> set a \<and> a \<noteq> [] \<and> b \<noteq> []"
proof -
  from assms have c: "CHR '':'' \<in> set ident"
    and a: "a = takeWhile (\<lambda>x. x \<noteq> CHR '':'') ident" "a \<noteq> []"
    and b: "b = tl (dropWhile (\<lambda>x. x \<noteq> CHR '':'') ident)" "b \<noteq> []"
    by (auto simp: ResourceCommonParseID_eq Let_def split: if_splits)
  from first_split[OF c] a(1) b(1) have "ident = a @ CHR '':'' # b" "CHR '':'' \<notin> set a"
    by simp_all
  with a(2) b(2) show ?thesis by simp
qed

section \<open>Parsing identifiers and sizes: the claims\<close>

text \<open>
  Claim C9. \<^const>\<open>ResourceCommonParseID\<close> returns a nil error exactly when the
  identifier has a colon with a non-empty part before the first colon and a non-empty
  part after it. On success it returns the part before the first colon and all that
  follows that colon, so that the first part has no colon and the two parts with a
  colon between them are the identifier; every such decomposition is what it returns.
  On failure it returns two empty strings and the error.
\<close>

theorem C9_parse_id:
  "(snd (snd (ResourceCommonParseID ident)) = None
      \<longleftrightarrow> (\<exists>a b. ident = a @ '':'' @ b \<and> CHR '':'' \<notin> set a \<and> a \<noteq> [] \<and> b \<noteq> []))
   \<and> (\<forall>a b. ResourceCommonParseID ident = (a, b, None)
         \<longrightarrow> ident = a @ '':'' @ b \<and> CHR '':'' \<notin> set a \<and> a \<noteq> [] \<and> b \<noteq> [])
   \<and> (\<forall>a b. ident = a @ '':'' @ b \<and> CHR '':'' \<notin> set a \<and> a \<noteq> [] \<and> b \<noteq> []
         \<longrightarrow> ResourceCommonParseID ident = (a, b, None))
   \<and> (snd (snd (ResourceCommonParseID ident)) \<noteq> None
         \<longrightarrow> ResourceCommonParseID ident
               = ('''', '''', Some (''unexpected format of ID ('' @ ident
                                      @ ''), expected attribute1:attribute2'')))"
proof (intro conjI allI impI)
  show "snd (snd (ResourceCommonParseID ident)) = None
      \<longleftrightarrow> (\<exists>a b. ident = a @ '':'' @ b \<and> CHR '':'' \<notin> set a \<and> a \<noteq> [] \<and> b \<noteq> [])"
  proof
    assume "snd (snd (ResourceCommonParseID ident)) = None"
    then obtain a b where "ResourceCommonParseID ident = (a, b, None)"
      by (cases "ResourceCommonParseID ident") auto
    then show "\<exists>a b. ident = a @ '':'' @ b \<and> CHR '':'' \<notin> set a \<and> a \<noteq> [] \<and> b \<noteq> []"
      using ResourceCommonParseID_ok by blast
  next
    assume "\<exists>a b. ident = a @ '':'' @ b \<and> CHR '':'' \<notin> set a \<and> a \<noteq> [] \<and> b \<noteq> []"
    then obtain a b where "ResourceCommonParseID ident = (a, b, None)"
      using ResourceCommonParseID_split by blast
    then show "snd (snd (ResourceCommonParseID ident)) = None"
      by simp
  qed
next
  fix a b
  assume "ResourceCommonParseID ident = (a, b, None)"
  then show "ident = a @ '':'' @ b" "CHR '':'' \<notin> set a" "a \<noteq> []" "b \<noteq> []"
    using ResourceCommonParseID_ok by blast+
next
  fix a b
  assume "ident = a @ '':'' @ b \<and> CHR '':'' \<notin> set a \<and> a \<noteq> [] \<and> b \<noteq> []"
  then show "ResourceCommonParseID ident = (a, b, None)"
    using ResourceCommonParseID_split by blast
next
  assume "snd (snd (ResourceCommonParseID ident)) \<noteq> None"
  then show "ResourceCommonParseID ident
               = ('''', '''', Some (''unexpected format of ID ('' @ ident
                                      @ ''), expected attribute1:attribute2''))"
    by (auto simp: ResourceCommonParseID_eq Let_def split: if_splits)
qed

theorem C9_parse_id_witness:
  "ResourceCommonParseID ''cluster:pool:1'' = (''cluster'', ''pool:1'', None)
   \<and> ''cluster:pool:1'' = ''cluster'' @ '':'' @ ''pool:1''
   \<and> CHR '':'' \<notin> set ''cluster''"
proof -
  have h: "''cluster:pool:1'' = ''cluster'' @ '':'' @ ''pool:1'' \<and> CHR '':'' \<notin> set ''cluster''
      \<and> ''cluster'' \<noteq> [] \<and> ''pool:1'' \<noteq> []"
    by simp
  have "ResourceCommonParseID ''cluster:pool:1'' = (''cluster'', ''pool:1'', None)"
    using h C9_parse_id [of "''cluster:pool:1''"] by blast
  then show ?thesis
    by simp
qed

text \<open>
  Claim C8. \<^const>\<open>StringToInt\<close> on \<^verbatim>\<open>10G\<close> returns 10 and a nil error; on
  \<^verbatim>\<open>abc\<close> it returns 0 and an error (the syntax error of \<^verbatim>\<open>Atoi\<close>).
\<close>

theorem C8_StringToInt_examples:
  "StringToInt ''10G'' = (10, None)
   \<and> StringToInt ''abc'' = (0, Some (NumError ''Atoi'' ''abc'' ErrSyntax))"
  by (simp add: StringToInt_def Replace_first_char Atoi_def)

text \<open>
  Claim C10. \<^const>\<open>StringToInt\<close> deletes the first \<^verbatim>\<open>G\<close> of its input, wherever it
  stands, and no other: its result is that of \<^const>\<open>Atoi\<close> on the input with the first
  \<^verbatim>\<open>G\<close> removed (\<^const>\<open>remove1\<close>), with 0 in place of the number on an error. So
  \<^verbatim>\<open>G10\<close> and \<^verbatim>\<open>1G0\<close> give 10 and a nil error, and \<^verbatim>\<open>10GG\<close>, where a
  \<^verbatim>\<open>G\<close> is left, gives 0 and an error.
\<close>

theorem C10_StringToInt_first_G:
  "StringToInt s = (case Atoi (remove1 CHR ''G'' s) of
                      Inl err \<Rightarrow> (0, Some err)
                    | Inr i \<Rightarrow> (i, None))
   \<and> StringToInt ''G10'' = (10, None)
   \<and> StringToInt ''1G0'' = (10, None)
   \<and> StringToInt ''10GG'' = (0, Some (NumError ''Atoi'' ''10G'' ErrSyntax))"
proof -
  have general: "StringToInt s = (case Atoi (remove1 CHR ''G'' s) of
                      Inl err \<Rightarrow> (0, Some err)
                    | Inr i \<Rightarrow> (i, None))" for s
    by (simp add: StringToInt_def Replace_first_char Let_def)
  have "Atoi ''10'' = Inr 10" "Atoi ''10G'' = Inl (NumError ''Atoi'' ''10G'' ErrSyntax)"
    by (simp_all add: Atoi_def)
  then have "StringToInt ''G10'' = (10, None)" "StringToInt ''1G0'' = (10, None)"
    "StringToInt ''10GG'' = (0, Some (NumError ''Atoi'' ''10G'' ErrSyntax))"
    by (simp_all add: general)
  with general show ?thesis
    by simp
qed

end
